theory Spec2Isabelle
  imports Main
begin

section \<open>JavaScript values\<close>

text \<open>
  The request scheduler (\<^verbatim>\<open>util/request-scheduler\<close>) inspects values it did not build:
  the full response the transport resolves with, or whatever the transport rejects with.
  They are modelled as JavaScript values. A number is an integer or \<^verbatim>\<open>NaN\<close>: the header
  values, the epoch milliseconds and the call counter are integers far inside the range
  where the arithmetic of doubles is exact, and that range is what the model covers.
  An object is a plain object, as a list of its own properties.
\<close>

datatype jsnum = NaN | Fin int

datatype jsval =
    JUndefined
  | JNull
  | JBool bool
  | JNum jsnum
  | JStr string
  | JObj "(string \<times> jsval) list"

fun js_add :: "jsnum \<Rightarrow> jsnum \<Rightarrow> jsnum" where
  "js_add (Fin a) (Fin b) = Fin (a + b)"
| "js_add _ _ = NaN"

fun js_sub :: "jsnum \<Rightarrow> jsnum \<Rightarrow> jsnum" where
  "js_sub (Fin a) (Fin b) = Fin (a - b)"
| "js_sub _ _ = NaN"

fun js_mul :: "jsnum \<Rightarrow> jsnum \<Rightarrow> jsnum" where
  "js_mul (Fin a) (Fin b) = Fin (a * b)"
| "js_mul _ _ = NaN"

text \<open>\<^verbatim>\<open>a > b\<close> and \<^verbatim>\<open>a <= b\<close> on numbers: both are false when either side is \<^verbatim>\<open>NaN\<close>.\<close>

fun js_gt :: "jsnum \<Rightarrow> jsnum \<Rightarrow> bool" where
  "js_gt (Fin a) (Fin b) = (b < a)"
| "js_gt _ _ = False"

fun js_le :: "jsnum \<Rightarrow> jsnum \<Rightarrow> bool" where
  "js_le (Fin a) (Fin b) = (a \<le> b)"
| "js_le _ _ = False"

text \<open>The truth value \<^verbatim>\<open>||\<close> tests.\<close>

fun truthy :: "jsval \<Rightarrow> bool" where
  "truthy JUndefined = False"
| "truthy JNull = False"
| "truthy (JBool b) = b"
| "truthy (JNum NaN) = False"
| "truthy (JNum (Fin n)) = (n \<noteq> 0)"
| "truthy (JStr s) = (s \<noteq> [])"
| "truthy (JObj fs) = True"

text \<open>
  A thrown value is a JavaScript value, so a computation that may throw has the type
  \<open>jsval + 'a\<close>, with \<open>Inl\<close> the thrown value.
\<close>

definition TypeError :: "string \<Rightarrow> jsval" where
  "TypeError m = JObj [(''name'', JStr ''TypeError''), (''message'', JStr m)]"

text \<open>
  Property access \<^verbatim>\<open>v[k]\<close> (and \<^verbatim>\<open>v.k\<close>): it throws a \<^verbatim>\<open>TypeError\<close> on \<^verbatim>\<open>undefined\<close>
  and \<^verbatim>\<open>null\<close>, reads an own property of an object, and is \<^verbatim>\<open>undefined\<close> for a
  property that is not there. None of the names the scheduler reads is a property of a
  boolean, a number or a string. The message of the error is written without its
  quotation marks.
\<close>

definition own_property :: "(string \<times> jsval) list \<Rightarrow> string \<Rightarrow> jsval" where
  "own_property fs k = (case map_of fs k of None \<Rightarrow> JUndefined | Some v \<Rightarrow> v)"

fun js_get :: "jsval \<Rightarrow> string \<Rightarrow> jsval + jsval" where
  "js_get JUndefined k =
     Inl (TypeError (''Cannot read property '' @ k @ '' of undefined''))"
| "js_get JNull k =
     Inl (TypeError (''Cannot read property '' @ k @ '' of null''))"
| "js_get (JObj fs) k = Inr (own_property fs k)"
| "js_get v k = Inr JUndefined"

definition bind_thrown :: "jsval + 'a \<Rightarrow> ('a \<Rightarrow> jsval + 'b) \<Rightarrow> jsval + 'b" where
  "bind_thrown m f = (case m of Inl e \<Rightarrow> Inl e | Inr x \<Rightarrow> f x)"

text \<open>
  The two built-ins of the runtime that read text are parameters of the model:
  the conversion of a string to a number (inside \<^verbatim>\<open>Number(v)\<close> and \<^verbatim>\<open>v * 1000\<close>) and
  \<^verbatim>\<open>Date.parse\<close>.
\<close>

record runtime =
  stringToNumber :: "string \<Rightarrow> jsnum"
  dateParse :: "jsval \<Rightarrow> jsnum"

fun toNumber :: "runtime \<Rightarrow> jsval \<Rightarrow> jsnum" where
  "toNumber rt JUndefined = NaN"
| "toNumber rt JNull = Fin 0"
| "toNumber rt (JBool b) = Fin (if b then 1 else 0)"
| "toNumber rt (JNum n) = n"
| "toNumber rt (JStr s) = stringToNumber rt s"
| "toNumber rt (JObj fs) = NaN"

section \<open>The rate-limit estimator\<close>

definition REQUEST_CONCURRENCY_LIMIT :: int where
  "REQUEST_CONCURRENCY_LIMIT = 100"

text \<open>
  \<^verbatim>\<open>const headers = res.headers || res.response.headers;\<close>
\<close>

definition headers_of :: "jsval \<Rightarrow> jsval + jsval" where
  "headers_of res =
     bind_thrown (js_get res ''headers'') (\<lambda>h.
       if truthy h then Inr h
       else bind_thrown (js_get res ''response'') (\<lambda>r. js_get r ''headers''))"

text \<open>
  \<^verbatim>\<open>timeToNextRequest(res)\<close>. The calls of the logger return nothing and decide
  nothing, and are left out.
\<close>

definition timeToNextRequest :: "runtime \<Rightarrow> jsval \<Rightarrow> jsval + jsnum" where
  "timeToNextRequest rt res =
     bind_thrown (headers_of res) (\<lambda>headers.
     bind_thrown (js_get headers ''x-rate-limit-remaining'') (\<lambda>rem.
       let remaining = toNumber rt rem in
       if js_gt remaining (Fin (REQUEST_CONCURRENCY_LIMIT + 10)) then Inr (Fin 0)
       else
         bind_thrown (js_get headers ''date'') (\<lambda>date.
         let serverTimeUtcMs = dateParse rt date in
         bind_thrown (js_get headers ''x-rate-limit-reset'') (\<lambda>reset.
         let serverResetUtcMs = js_mul (toNumber rt reset) (Fin 1000);
             time = js_add (js_sub serverResetUtcMs serverTimeUtcMs) (Fin 1000)
         in Inr time))))"

section \<open>The request scheduler\<close>

text \<open>
  A verb of the scheduler hands \<^verbatim>\<open>schedule\<close> the thunk
  \<^verbatim>\<open>() => this.rp.get.apply(null, arguments)\<close>: a method of the transport and the
  \<^verbatim>\<open>arguments\<close> object the verb was called with.
\<close>

datatype verb = GET | PUT | POST | DELETE

datatype rp_call =
    RpGet "jsval list"
  | RpPut "jsval list"
  | RpPost "jsval list"
  | RpDelete "jsval list"

text \<open>How the promise of the transport settles.\<close>

datatype outcome = Resolved jsval | Rejected jsval

text \<open>
  \<^verbatim>\<open>schedule\<close> is an \<^verbatim>\<open>async\<close> function: an activation of it runs without
  interruption to its next \<^verbatim>\<open>await\<close> and is resumed later. An activation is either at
  \<^verbatim>\<open>await scheduler.pool.acquire()\<close>, at \<^verbatim>\<open>await fn()\<close>, or finished, having returned
  (\<open>Inr\<close>) or thrown (\<open>Inl\<close>).
\<close>

datatype phase = Waiting | Executing | Finished "jsval + jsval"

record call =
  call_id :: nat
  call_fn :: rp_call
  call_phase :: phase

text \<open>
  Modelled from the spec: the source of \<^verbatim>\<open>util/concurrency-pool\<close> is missing. The pool
  is a counting semaphore over a fixed number of slots. \<^verbatim>\<open>acquire()\<close> suspends the
  caller until a slot is free, then marks it held and returns a handle; \<^verbatim>\<open>release()\<close>
  on the handle returns the slot to the free set.
\<close>

record concurrency_pool =
  pool_size :: nat
  pool_held :: nat

text \<open>Modelled from the spec: \<^verbatim>\<open>new ConcurrencyPool(n)\<close>, a pool of n free slots.\<close>

definition ConcurrencyPool :: "nat \<Rightarrow> concurrency_pool" where
  "ConcurrencyPool n = \<lparr>pool_size = n, pool_held = 0\<rparr>"

text \<open>
  Modelled from the spec: whether \<^verbatim>\<open>acquire()\<close> can resume its caller, a slot being
  free.
\<close>

definition slot_free :: "concurrency_pool \<Rightarrow> bool" where
  "slot_free p = (pool_held p < pool_size p)"

text \<open>Modelled from the spec: \<^verbatim>\<open>acquire()\<close> resumes its caller and marks a slot held.\<close>

definition acquire :: "concurrency_pool \<Rightarrow> concurrency_pool" where
  "acquire p = p\<lparr>pool_held := pool_held p + 1\<rparr>"

text \<open>
  Modelled from the spec: \<^verbatim>\<open>release()\<close> on the handle returns its slot to the free set.
\<close>

definition release :: "concurrency_pool \<Rightarrow> concurrency_pool" where
  "release p = p\<lparr>pool_held := pool_held p - 1\<rparr>"

text \<open>
  The state: the counter of the scheduler, its pool, and what the activations have done
  to the world around them, namely the calls made on the transport (with the id of the
  activation), the timers armed by \<^verbatim>\<open>setTimeout(resource.release, delay)\<close> (with the id
  of the activation whose slot they release), and the timers that have fired.
\<close>

record scheduler =
  requestId :: nat
  pool :: concurrency_pool
  calls :: "call list"
  transport :: "(nat \<times> rp_call) list"
  timers :: "(nat \<times> jsnum) list"
  released :: "nat list"

text \<open>\<^verbatim>\<open>new RequestScheduler()\<close>\<close>

definition constructor :: scheduler where
  "constructor =
     \<lparr>requestId = 0, pool = ConcurrencyPool (nat REQUEST_CONCURRENCY_LIMIT),
      calls = [], transport = [], timers = [], released = []\<rparr>"

text \<open>
  \<^verbatim>\<open>schedule\<close>, from its entry to \<^verbatim>\<open>await scheduler.pool.acquire()\<close>:
  \<^verbatim>\<open>const requestId = scheduler.requestId++;\<close>
\<close>

definition schedule_enter :: "scheduler \<Rightarrow> rp_call \<Rightarrow> scheduler" where
  "schedule_enter s fn =
     (let requestId = requestId s
      in s\<lparr>requestId := requestId + 1,
            calls := calls s @ [\<lparr>call_id = requestId, call_fn = fn, call_phase = Waiting\<rparr>]\<rparr>)"

text \<open>
  \<^verbatim>\<open>schedule\<close>, resumed with the slot, to \<^verbatim>\<open>await fn()\<close>: the slot is held and the
  thunk is called.
\<close>

definition schedule_acquired :: "nat \<Rightarrow> scheduler \<Rightarrow> scheduler" where
  "schedule_acquired i s =
     (let c = calls s ! i
      in s\<lparr>pool := acquire (pool s),
            transport := transport s @ [(call_id c, call_fn c)],
            calls := (calls s)[i := c\<lparr>call_phase := Executing\<rparr>]\<rparr>)"

text \<open>
  The \<^verbatim>\<open>catch (err)\<close> block: the delays of the timers it arms, and how it ends.
  \<^verbatim>\<open>setTimeout(resource.release, timeToNextRequest(err)); throw err;\<close>
\<close>

definition catch_block :: "runtime \<Rightarrow> jsval \<Rightarrow> jsnum list \<times> (jsval + jsval)" where
  "catch_block rt err =
     (case timeToNextRequest rt err of
        Inl e \<Rightarrow> ([], Inl e)
      | Inr delay \<Rightarrow> ([delay], Inl err))"

text \<open>
  The \<^verbatim>\<open>try\<close> statement, from the moment the promise of \<^verbatim>\<open>fn()\<close> settles: the delays
  of the timers armed, in order, and how \<^verbatim>\<open>schedule\<close> ends. Whatever is thrown inside
  the \<^verbatim>\<open>try\<close> block, by the transport or after it, is caught by the \<^verbatim>\<open>catch\<close> block.
\<close>

definition try_block :: "runtime \<Rightarrow> outcome \<Rightarrow> jsnum list \<times> (jsval + jsval)" where
  "try_block rt out =
     (case out of
        Rejected err \<Rightarrow> catch_block rt err
      | Resolved res \<Rightarrow>
          (case timeToNextRequest rt res of
             Inl e \<Rightarrow> catch_block rt e
           | Inr delay \<Rightarrow>
               (case js_get res ''body'' of
                  Inl e \<Rightarrow> (delay # fst (catch_block rt e), snd (catch_block rt e))
                | Inr body \<Rightarrow> ([delay], Inr body))))"

text \<open>\<^verbatim>\<open>schedule\<close>, resumed when the promise of \<^verbatim>\<open>fn()\<close> has settled, to its end.\<close>

definition schedule_settled :: "runtime \<Rightarrow> nat \<Rightarrow> outcome \<Rightarrow> scheduler \<Rightarrow> scheduler" where
  "schedule_settled rt i out s =
     (let c = calls s ! i;
          (delays, result) = try_block rt out
      in s\<lparr>timers := timers s @ map (\<lambda>d. (call_id c, d)) delays,
            calls := (calls s)[i := c\<lparr>call_phase := Finished result\<rparr>]\<rparr>)"

text \<open>
  The four verbs. The message each builds (\<^verbatim>\<open>JSON.stringify(arguments)\<close>) is only
  logged.
\<close>

definition get :: "scheduler \<Rightarrow> jsval list \<Rightarrow> scheduler" where
  "get s arguments = schedule_enter s (RpGet arguments)"

definition put :: "scheduler \<Rightarrow> jsval list \<Rightarrow> scheduler" where
  "put s arguments = schedule_enter s (RpPut arguments)"

definition post :: "scheduler \<Rightarrow> jsval list \<Rightarrow> scheduler" where
  "post s arguments = schedule_enter s (RpPost arguments)"

definition delete :: "scheduler \<Rightarrow> jsval list \<Rightarrow> scheduler" where
  "delete s arguments = schedule_enter s (RpDelete arguments)"

subsection \<open>Interleavings\<close>

text \<open>
  What can happen next, on the single thread of the event loop: a caller invokes a
  verb; the pool hands a free slot to a waiting activation; the promise of the transport
  settles for an executing activation; a timer that is armed and has not fired, fires,
  and \<^verbatim>\<open>resource.release\<close> returns the slot. An interleaving of concurrent callers is
  a list of such events. Activations are found by their position in \<open>calls\<close>, timers by
  their position in \<open>timers\<close>. The pool may hand the slot to any waiting activation.
\<close>

datatype event =
    Invoke verb "jsval list"
  | Grant nat
  | Settle nat outcome
  | Fire nat

fun step :: "runtime \<Rightarrow> event \<Rightarrow> scheduler \<Rightarrow> scheduler option" where
  "step rt (Invoke v arguments) s =
     Some (case v of
             GET \<Rightarrow> get s arguments
           | PUT \<Rightarrow> put s arguments
           | POST \<Rightarrow> post s arguments
           | DELETE \<Rightarrow> delete s arguments)"
| "step rt (Grant i) s =
     (if i < length (calls s) \<and> call_phase (calls s ! i) = Waiting
         \<and> slot_free (pool s)
      then Some (schedule_acquired i s) else None)"
| "step rt (Settle i out) s =
     (if i < length (calls s) \<and> call_phase (calls s ! i) = Executing
      then Some (schedule_settled rt i out s) else None)"
| "step rt (Fire k) s =
     (if k < length (timers s) \<and> k \<notin> set (released s)
      then Some (s\<lparr>pool := release (pool s), released := released s @ [k]\<rparr>) else None)"

fun run :: "runtime \<Rightarrow> scheduler \<Rightarrow> event list \<Rightarrow> scheduler option" where
  "run rt s [] = Some s"
| "run rt s (e # es) = (case step rt e s of None \<Rightarrow> None | Some s' \<Rightarrow> run rt s' es)"


fun invocations :: "event list \<Rightarrow> (verb \<times> jsval list) list" where
  "invocations [] = []"
| "invocations (Invoke v arguments # es) = (v, arguments) # invocations es"
| "invocations (e # es) = invocations es"

text \<open>The value \<^verbatim>\<open>schedule\<close> hands the estimator first: the response, or the error.\<close>

fun settled_value :: "outcome \<Rightarrow> jsval" where
  "settled_value (Resolved res) = res"
| "settled_value (Rejected err) = err"

section \<open>Examples\<close>

text \<open>
  A runtime for the examples: a string of decimal digits is the number it writes, and
  two dates are known.
\<close>

fun digits_value :: "int \<Rightarrow> string \<Rightarrow> jsnum" where
  "digits_value acc [] = Fin acc"
| "digits_value acc (c # cs) =
     (if 48 \<le> (of_char c :: int) \<and> (of_char c :: int) \<le> 57
      then digits_value (acc * 10 + (of_char c - 48)) cs else NaN)"

definition example_runtime :: runtime where
  "example_runtime =
     \<lparr>stringToNumber = digits_value 0,
      dateParse = (\<lambda>v. if v = JStr ''2024-01-01T00:00:00Z'' then Fin 1704067200000
                        else if v = JStr ''2024-01-01T00:00:10Z'' then Fin 1704067210000
                        else NaN)\<rparr>"

text \<open>
  The error of the transport for a connection that was reset: a \<^verbatim>\<open>RequestError\<close>,
  whose \<^verbatim>\<open>response\<close> is \<^verbatim>\<open>undefined\<close>.
\<close>

definition econnreset :: jsval where
  "econnreset =
     JObj [(''name'', JStr ''RequestError''),
           (''message'', JStr ''Error: read ECONNRESET''),
           (''cause'', JObj [(''code'', JStr ''ECONNRESET'')]),
           (''response'', JUndefined)]"

text \<open>
  A full response of the scenario of the spec: 5 requests remain, the window resets 2
  seconds after the date of the server.
\<close>

definition scarce_headers :: "(string \<times> jsval) list" where
  "scarce_headers =
     [(''date'', JStr ''2024-01-01T00:00:00Z''),
      (''x-rate-limit-remaining'', JStr ''5''),
      (''x-rate-limit-reset'', JStr ''1704067202'')]"

definition scarce_fields :: "(string \<times> jsval) list" where
  "scarce_fields =
     [(''statusCode'', JNum (Fin 200)),
      (''headers'', JObj scarce_headers),
      (''body'', JObj [(''id'', JStr ''00u1'')])]"

definition scarce_response :: jsval where
  "scarce_response = JObj scarce_fields"

text \<open>
  A status-code error that wraps a response with the same three headers, among others.
\<close>

definition scarce_error_headers :: "(string \<times> jsval) list" where
  "scarce_error_headers =
     [(''content-type'', JStr ''application/json''),
      (''x-rate-limit-reset'', JStr ''1704067202''),
      (''x-rate-limit-remaining'', JStr ''5''),
      (''date'', JStr ''2024-01-01T00:00:00Z'')]"

definition scarce_error :: jsval where
  "scarce_error =
     JObj [(''name'', JStr ''StatusCodeError''),
           (''statusCode'', JNum (Fin 429)),
           (''response'',
              JObj [(''statusCode'', JNum (Fin 429)),
                    (''headers'', JObj scarce_error_headers),
                    (''body'', JNull)])]"

text \<open>A full response with ample headroom.\<close>

definition ample_headers :: "(string \<times> jsval) list" where
  "ample_headers =
     [(''date'', JStr ''2024-01-01T00:00:00Z''),
      (''x-rate-limit-remaining'', JStr ''599''),
      (''x-rate-limit-reset'', JStr ''1704067202'')]"

definition ample_response :: jsval where
  "ample_response =
     JObj [(''statusCode'', JNum (Fin 200)),
           (''headers'', JObj ample_headers),
           (''body'', JObj [])]"

text \<open>
  A full response whose window reset lies 10 seconds before the date of the server.
\<close>

definition skewed_headers :: "(string \<times> jsval) list" where
  "skewed_headers =
     [(''date'', JStr ''2024-01-01T00:00:10Z''),
      (''x-rate-limit-remaining'', JStr ''5''),
      (''x-rate-limit-reset'', JStr ''1704067200'')]"

definition skewed_response :: jsval where
  "skewed_response =
     JObj [(''statusCode'', JNum (Fin 200)),
           (''headers'', JObj skewed_headers),
           (''body'', JObj [])]"

text \<open>
  One caller has invoked \<^verbatim>\<open>get\<close> and holds a slot; its call of the transport is under
  way. Then the transport resolves with the response of the scenario.
\<close>

definition example_executing :: scheduler where
  "example_executing =
     \<lparr>requestId = 1,
      pool = \<lparr>pool_size = 100, pool_held = 1\<rparr>,
      calls = [\<lparr>call_id = 0, call_fn = RpGet [JStr ''/api/v1/groups''],
                call_phase = Executing\<rparr>],
      transport = [(0, RpGet [JStr ''/api/v1/groups''])],
      timers = [],
      released = []\<rparr>"

definition example_returned :: scheduler where
  "example_returned =
     \<lparr>requestId = 1,
      pool = \<lparr>pool_size = 100, pool_held = 1\<rparr>,
      calls = [\<lparr>call_id = 0, call_fn = RpGet [JStr ''/api/v1/groups''],
                call_phase = Finished (Inr (JObj [(''id'', JStr ''00u1'')]))\<rparr>],
      transport = [(0, RpGet [JStr ''/api/v1/groups''])],
      timers = [(0, Fin 3000)],
      released = []\<rparr>"

text \<open>
  Three concurrent callers: the second is served before the first, a timer fires while
  the third is executing, and the third loses its connection.
\<close>

definition post_options :: jsval where
  "post_options =
     JObj [(''uri'', JStr ''/api/v1/users''),
           (''body'', JObj [(''profile'', JObj [(''login'', JStr ''a@example.com'')])])]"

definition example_interleaving :: "event list" where
  "example_interleaving =
     [Invoke GET [JStr ''/api/v1/groups''],
      Invoke POST [post_options],
      Grant 1,
      Invoke DELETE [JStr ''/api/v1/groups/00g1''],
      Grant 0,
      Settle 0 (Resolved scarce_response),
      Grant 2,
      Settle 1 (Rejected scarce_error),
      Fire 0,
      Settle 2 (Rejected econnreset)]"

definition example_final :: scheduler where
  "example_final =
     \<lparr>requestId = 3,
      pool = \<lparr>pool_size = 100, pool_held = 2\<rparr>,
      calls =
        [\<lparr>call_id = 0, call_fn = RpGet [JStr ''/api/v1/groups''],
          call_phase = Finished (Inr (JObj [(''id'', JStr ''00u1'')]))\<rparr>,
         \<lparr>call_id = 1, call_fn = RpPost [post_options],
          call_phase = Finished (Inl scarce_error)\<rparr>,
         \<lparr>call_id = 2, call_fn = RpDelete [JStr ''/api/v1/groups/00g1''],
          call_phase =
            Finished (Inl (TypeError ''Cannot read property headers of undefined''))\<rparr>],
      transport =
        [(1, RpPost [post_options]),
         (0, RpGet [JStr ''/api/v1/groups'']),
         (2, RpDelete [JStr ''/api/v1/groups/00g1''])],
      timers = [(0, Fin 3000), (1, Fin 3000)],
      released = [0]\<rparr>"

section \<open>Properties of the estimator\<close>

lemma bind_thrown_Inr [simp]: "bind_thrown (Inr x) f = f x"
  by (simp add: bind_thrown_def)

lemma bind_thrown_Inl [simp]: "bind_thrown (Inl e) f = Inl e"
  by (simp add: bind_thrown_def)

lemma headers_of_scarce_response: "headers_of scarce_response = Inr (JObj scarce_headers)"
  by (simp add: headers_of_def scarce_response_def scarce_fields_def own_property_def)

lemma headers_of_scarce_error: "headers_of scarce_error = Inr (JObj scarce_error_headers)"
  by (simp add: headers_of_def scarce_error_def own_property_def)

lemma headers_of_ample_response: "headers_of ample_response = Inr (JObj ample_headers)"
  by (simp add: headers_of_def ample_response_def own_property_def)

text \<open>
  C2. The claim: an input with neither a \<^verbatim>\<open>headers\<close> field nor an embedded response
  makes the estimator return the delay 0 instead of throwing. The code does not: on the
  error of a reset connection, \<^verbatim>\<open>res.headers\<close> is \<^verbatim>\<open>undefined\<close>, so the estimator
  reads \<^verbatim>\<open>res.response.headers\<close>, and \<^verbatim>\<open>res.response\<close> is \<^verbatim>\<open>undefined\<close>: the
  estimator throws a \<^verbatim>\<open>TypeError\<close>, whatever the runtime.
\<close>

theorem estimator_throws_without_response:
  "timeToNextRequest rt econnreset =
     Inl (TypeError ''Cannot read property headers of undefined'')"
  by (simp add: timeToNextRequest_def headers_of_def econnreset_def own_property_def)

text \<open>
  C3. For every outcome whose header set \<open>hs\<close> has a remaining count of at most
  110 (the pool size 100 plus 10), the estimator returns the reset header times 1000,
  minus the parsed date header, plus 1000, in the arithmetic of the runtime.
\<close>

theorem estimator_delay_to_reset:
  assumes "headers_of res = Inr (JObj hs)"
    and "js_le (toNumber rt (own_property hs ''x-rate-limit-remaining'')) (Fin 110)"
  shows "timeToNextRequest rt res =
    Inr (js_add
          (js_sub (js_mul (toNumber rt (own_property hs ''x-rate-limit-reset'')) (Fin 1000))
                  (dateParse rt (own_property hs ''date'')))
          (Fin 1000))"
proof -
  have "\<not> js_gt (toNumber rt (own_property hs ''x-rate-limit-remaining'')) (Fin 110)"
    using assms(2) by (cases "toNumber rt (own_property hs ''x-rate-limit-remaining'')") auto
  then show ?thesis
    using assms(1) by (simp add: timeToNextRequest_def REQUEST_CONCURRENCY_LIMIT_def)
qed

theorem estimator_delay_to_reset_witness:
  "headers_of scarce_response = Inr (JObj scarce_headers)
   \<and> toNumber example_runtime (own_property scarce_headers ''x-rate-limit-remaining'') = Fin 5
   \<and> timeToNextRequest example_runtime scarce_response = Inr (Fin 3000)"
  using estimator_delay_to_reset [OF headers_of_scarce_response, of example_runtime]
  by (simp add: headers_of_scarce_response scarce_headers_def own_property_def
      example_runtime_def)

text \<open>
  C4. For every outcome whose header set \<open>hs\<close> has a remaining count greater than
  110 (the pool size 100 plus 10), the estimator returns the delay 0.
\<close>

theorem estimator_zero_with_headroom:
  assumes "headers_of res = Inr (JObj hs)"
    and "js_gt (toNumber rt (own_property hs ''x-rate-limit-remaining'')) (Fin 110)"
  shows "timeToNextRequest rt res = Inr (Fin 0)"
  using assms by (simp add: timeToNextRequest_def REQUEST_CONCURRENCY_LIMIT_def)

theorem estimator_zero_with_headroom_witness:
  "headers_of ample_response = Inr (JObj ample_headers)
   \<and> toNumber example_runtime (own_property ample_headers ''x-rate-limit-remaining'') = Fin 599
   \<and> timeToNextRequest example_runtime ample_response = Inr (Fin 0)"
  using estimator_zero_with_headroom [OF headers_of_ample_response, of example_runtime]
  by (simp add: headers_of_ample_response ample_headers_def own_property_def
      example_runtime_def)

text \<open>
  C10. The result of the estimator depends only on the three headers it reads: two
  outcomes, of either shape, whose headers agree on \<^verbatim>\<open>date\<close>,
  \<^verbatim>\<open>x-rate-limit-remaining\<close> and \<^verbatim>\<open>x-rate-limit-reset\<close> get the same result, whatever
  else they carry.
\<close>

theorem estimator_reads_three_headers:
  assumes "headers_of r1 = Inr h1" and "headers_of r2 = Inr h2"
    and "js_get h1 ''date'' = js_get h2 ''date''"
    and "js_get h1 ''x-rate-limit-remaining'' = js_get h2 ''x-rate-limit-remaining''"
    and "js_get h1 ''x-rate-limit-reset'' = js_get h2 ''x-rate-limit-reset''"
  shows "timeToNextRequest rt r1 = timeToNextRequest rt r2"
  by (simp add: timeToNextRequest_def assms cong: if_cong)

theorem estimator_reads_three_headers_witness:
  "scarce_response \<noteq> scarce_error
   \<and> scarce_headers \<noteq> scarce_error_headers
   \<and> timeToNextRequest example_runtime scarce_response
       = timeToNextRequest example_runtime scarce_error"
  using estimator_reads_three_headers
      [OF headers_of_scarce_response headers_of_scarce_error, of example_runtime]
  by (simp add: scarce_response_def scarce_error_def scarce_headers_def
      scarce_error_headers_def scarce_fields_def own_property_def)

section \<open>Properties of one activation of \<^verbatim>\<open>schedule\<close>\<close>

text \<open>Whatever the estimator throws is a \<^verbatim>\<open>TypeError\<close> of a property access.\<close>

lemma js_get_throws_TypeError: "js_get v k = Inl e \<Longrightarrow> \<exists>m. e = TypeError m"
  by (cases v) auto

lemma headers_of_throws_TypeError: "headers_of v = Inl e \<Longrightarrow> \<exists>m. e = TypeError m"
  by (auto simp: headers_of_def bind_thrown_def split: sum.splits if_splits
           dest: js_get_throws_TypeError)

lemma estimator_throws_TypeError:
  "timeToNextRequest rt v = Inl e \<Longrightarrow> \<exists>m. e = TypeError m"
  by (auto simp: timeToNextRequest_def bind_thrown_def Let_def split: sum.splits if_splits
           dest: js_get_throws_TypeError headers_of_throws_TypeError)

text \<open>
  A \<^verbatim>\<open>TypeError\<close> has neither headers nor a response: handed to the estimator, as the
  \<^verbatim>\<open>catch\<close> block does with an error thrown inside the \<^verbatim>\<open>try\<close> block, it makes the
  estimator throw again.
\<close>

lemma estimator_on_TypeError:
  "timeToNextRequest rt (TypeError m) =
     Inl (TypeError ''Cannot read property headers of undefined'')"
  by (simp add: timeToNextRequest_def headers_of_def TypeError_def own_property_def)

lemma catch_block_TypeError:
  "catch_block rt (TypeError m) =
     ([], Inl (TypeError ''Cannot read property headers of undefined''))"
  by (simp add: catch_block_def estimator_on_TypeError)

text \<open>
  The estimator throws on every object that has neither truthy headers nor a response.
\<close>

lemma estimator_throws_without_headers:
  assumes "\<not> truthy (own_property fs ''headers'')"
    and "own_property fs ''response'' = JUndefined \<or> own_property fs ''response'' = JNull"
  shows "\<exists>m. timeToNextRequest rt (JObj fs) = Inl (TypeError m)"
  using assms by (auto simp: timeToNextRequest_def headers_of_def)

lemma body_readable:
  "timeToNextRequest rt res = Inr d \<Longrightarrow> \<exists>b. js_get res ''body'' = Inr b"
  by (cases res) (auto simp: timeToNextRequest_def headers_of_def)

lemma estimator_returns_with_headers:
  "headers_of res = Inr (JObj hs) \<Longrightarrow> \<exists>d. timeToNextRequest rt res = Inr d"
  by (simp add: timeToNextRequest_def Let_def)

text \<open>
  The timers one activation arms: one, with the result of the estimator on the response
  or the error as its delay, when the estimator returns; none when it throws.
\<close>

lemma try_block_delays:
  "fst (try_block rt out) =
     (case timeToNextRequest rt (settled_value out) of Inl e \<Rightarrow> [] | Inr d \<Rightarrow> [d])"
proof (cases out)
  case (Resolved res)
  show ?thesis
  proof (cases "timeToNextRequest rt res")
    case (Inl e)
    then obtain m where "e = TypeError m" using estimator_throws_TypeError by blast
    with Inl Resolved show ?thesis by (simp add: try_block_def catch_block_TypeError)
  next
    case (Inr d)
    then obtain b where "js_get res ''body'' = Inr b" using body_readable by blast
    with Inr Resolved show ?thesis by (simp add: try_block_def)
  qed
next
  case (Rejected err)
  then show ?thesis by (simp add: try_block_def catch_block_def split: sum.splits)
qed

lemma try_block_at_most_one_timer: "length (fst (try_block rt out)) \<le> 1"
  by (simp add: try_block_delays split: sum.splits)

lemma try_block_one_timer_with_headers:
  assumes "headers_of (settled_value out) = Inr (JObj hs)"
  shows "length (fst (try_block rt out)) = 1"
proof -
  obtain d where "timeToNextRequest rt (settled_value out) = Inr d"
    using estimator_returns_with_headers [OF assms] by blast
  then show ?thesis by (simp add: try_block_delays)
qed

lemma try_block_rethrows_with_headers:
  assumes "headers_of err = Inr (JObj hs)"
  shows "snd (try_block rt (Rejected err)) = Inl err"
proof -
  obtain d where "timeToNextRequest rt err = Inr d"
    using estimator_returns_with_headers [OF assms] by blast
  then show ?thesis by (simp add: try_block_def catch_block_def)
qed

lemma try_block_scarce_response:
  "try_block example_runtime (Resolved scarce_response) =
     ([Fin 3000], Inr (JObj [(''id'', JStr ''00u1'')]))"
  by (simp add: try_block_def timeToNextRequest_def headers_of_scarce_response)
     (simp add: scarce_response_def scarce_fields_def scarce_headers_def own_property_def
        example_runtime_def REQUEST_CONCURRENCY_LIMIT_def)

lemma try_block_scarce_error:
  "try_block example_runtime (Rejected scarce_error) = ([Fin 3000], Inl scarce_error)"
  by (simp add: try_block_def catch_block_def timeToNextRequest_def headers_of_scarce_error)
     (simp add: scarce_error_headers_def own_property_def example_runtime_def
        REQUEST_CONCURRENCY_LIMIT_def)

lemma try_block_econnreset:
  "try_block rt (Rejected econnreset) =
     ([], Inl (TypeError ''Cannot read property headers of undefined''))"
  by (simp add: try_block_def catch_block_def timeToNextRequest_def headers_of_def
      econnreset_def own_property_def)

lemma try_block_skewed_response:
  "try_block example_runtime (Resolved skewed_response) = ([Fin (- 9000)], Inr (JObj []))"
  by (simp add: try_block_def timeToNextRequest_def headers_of_def skewed_response_def
      skewed_headers_def own_property_def example_runtime_def REQUEST_CONCURRENCY_LIMIT_def)

lemma try_block_when_estimated:
  assumes "timeToNextRequest rt (settled_value out) = Inr d"
  shows "fst (try_block rt out) = [d]"
  using assms by (simp add: try_block_delays)

text \<open>
  On a full response, an object whose \<^verbatim>\<open>headers\<close> is an object, the \<^verbatim>\<open>try\<close> block
  ends in \<^verbatim>\<open>return res.body\<close>.
\<close>

lemma try_block_returns_body:
  assumes "own_property fs ''headers'' = JObj hs"
  shows "snd (try_block rt (Resolved (JObj fs))) = Inr (own_property fs ''body'')"
proof -
  have "headers_of (JObj fs) = Inr (JObj hs)"
    using assms by (simp add: headers_of_def)
  then obtain d where "timeToNextRequest rt (JObj fs) = Inr d"
    using estimator_returns_with_headers by blast
  then show ?thesis by (simp add: try_block_def)
qed

text \<open>
  C7. The claim: when the call of the transport fails, \<^verbatim>\<open>schedule\<close> throws the error
  of the transport, unchanged. The code does not when the error carries no response: the
  estimator throws inside the \<^verbatim>\<open>catch\<close> block, before \<^verbatim>\<open>throw err\<close>, and the caller
  gets that \<^verbatim>\<open>TypeError\<close> in place of the error of the transport.
\<close>

theorem connection_error_replaced:
  "snd (try_block rt (Rejected econnreset))
     = Inl (TypeError ''Cannot read property headers of undefined'')
   \<and> TypeError ''Cannot read property headers of undefined'' \<noteq> econnreset"
  by (simp add: try_block_econnreset) (simp add: TypeError_def econnreset_def)

section \<open>Properties of interleavings\<close>

lemma schedule_enter_calls:
  "calls (schedule_enter s fn) =
     calls s @ [\<lparr>call_id = requestId s, call_fn = fn, call_phase = Waiting\<rparr>]"
  and schedule_enter_requestId: "requestId (schedule_enter s fn) = requestId s + 1"
  and schedule_enter_transport: "transport (schedule_enter s fn) = transport s"
  by (simp_all add: schedule_enter_def Let_def)

lemma map_update_same:
  "i < length xs \<Longrightarrow> f c = f (xs ! i) \<Longrightarrow> map f (xs[i := c]) = map f xs"
  by (simp add: map_update list_update_same_conv)

lemma invocations_Cons: "invocations (e # es) = invocations [e] @ invocations es"
  by (cases e) simp_all


text \<open>
  One event keeps the counter equal to the number of activations and the ids equal to
  the positions; only a verb adds an activation.
\<close>

lemma step_keeps_ids:
  assumes "step rt e s = Some s'"
    and "requestId s = length (calls s)"
    and "map call_id (calls s) = [0..<length (calls s)]"
  shows "requestId s' = length (calls s') \<and> map call_id (calls s') = [0..<length (calls s')]
         \<and> length (calls s') = length (calls s) + length (invocations [e])"
proof (cases e)
  case (Invoke v arguments)
  with assms show ?thesis
    by (cases v) (auto simp: get_def put_def post_def delete_def
        schedule_enter_calls schedule_enter_requestId)
next
  case (Grant i)
  with assms show ?thesis
    by (auto simp: schedule_acquired_def Let_def map_update_same split: if_splits)
next
  case (Settle i out)
  with assms show ?thesis
    by (auto simp: schedule_settled_def Let_def map_update_same split: if_splits prod.splits)
next
  case (Fire k)
  with assms show ?thesis by (auto split: if_splits)
qed



lemma run_keeps_ids:
  assumes "run rt s es = Some s'"
    and "requestId s = length (calls s)"
    and "map call_id (calls s) = [0..<length (calls s)]"
  shows "requestId s' = length (calls s') \<and> map call_id (calls s') = [0..<length (calls s')]
         \<and> length (calls s') = length (calls s) + length (invocations es)"
  using assms
proof (induction es arbitrary: s)
  case Nil
  then show ?case by simp
next
  case (Cons e es)
  from Cons.prems(1) obtain s1 where s1: "step rt e s = Some s1"
    and r: "run rt s1 es = Some s'"
    by (auto split: option.splits)
  from step_keeps_ids [OF s1 Cons.prems(2,3)] Cons.IH [OF r] show ?case
    by (simp add: invocations_Cons [of e es])
qed



text \<open>
  What the resumption of an activation does to the state when its promise settles: the
  timers of the \<^verbatim>\<open>try\<close> statement are armed for its slot, and it is finished with the
  result of the \<^verbatim>\<open>try\<close> statement.
\<close>

lemma settle_effect:
  assumes "step rt (Settle i out) s = Some s'"
  shows "timers s' =
           timers s @ map (\<lambda>d. (call_id (calls s ! i), d)) (fst (try_block rt out))"
    and "calls s' =
           (calls s)[i := (calls s ! i)\<lparr>call_phase := Finished (snd (try_block rt out))\<rparr>]"
    and "i < length (calls s)"
  using assms by (auto simp: schedule_settled_def Let_def split: if_splits prod.splits)

lemma run_example_executing:
  "run rt constructor [Invoke GET [JStr ''/api/v1/groups''], Grant 0] = Some example_executing"
  by (simp add: example_executing_def constructor_def get_def schedule_enter_def
      schedule_acquired_def ConcurrencyPool_def slot_free_def acquire_def
      REQUEST_CONCURRENCY_LIMIT_def)

lemma step_example_returned:
  "step example_runtime (Settle 0 (Resolved scarce_response)) example_executing
     = Some example_returned"
  by (simp add: schedule_settled_def try_block_scarce_response)
     (simp add: example_executing_def example_returned_def)

lemma run_example: "run example_runtime constructor example_interleaving = Some example_final"
  by (simp add: example_interleaving_def example_final_def constructor_def
      get_def post_def delete_def schedule_enter_def schedule_acquired_def
      schedule_settled_def ConcurrencyPool_def slot_free_def acquire_def release_def
      REQUEST_CONCURRENCY_LIMIT_def try_block_scarce_response try_block_scarce_error
      try_block_econnreset)

text \<open>
  C1. The claim: every activation that acquired a slot arms exactly one release timer,
  also when the outcome of its call carries no headers. The code does not: a caller
  invokes \<^verbatim>\<open>get\<close>, is given a slot, and the transport rejects with the error of a
  reset connection; the activation ends, with the \<^verbatim>\<open>TypeError\<close> of the estimator, and
  no timer is armed: the slot stays held.
\<close>

theorem slot_lost_on_connection_error:
  "run example_runtime constructor
     [Invoke GET [JStr ''/api/v1/groups''], Grant 0, Settle 0 (Rejected econnreset)]
   = Some \<lparr>requestId = 1,
           pool = \<lparr>pool_size = 100, pool_held = 1\<rparr>,
           calls =
             [\<lparr>call_id = 0, call_fn = RpGet [JStr ''/api/v1/groups''],
               call_phase =
                 Finished (Inl (TypeError ''Cannot read property headers of undefined''))\<rparr>],
           transport = [(0, RpGet [JStr ''/api/v1/groups''])],
           timers = [],
           released = []\<rparr>"
  by (simp add: constructor_def get_def schedule_enter_def schedule_acquired_def
      schedule_settled_def ConcurrencyPool_def slot_free_def acquire_def
      REQUEST_CONCURRENCY_LIMIT_def try_block_econnreset)

text \<open>
  C6. In every interleaving of callers on a new scheduler, the ids of the activations,
  in the order of the invocations, are 0, 1, 2, ... without a gap, one for each verb
  invoked, and the counter is the number of verbs invoked: each invocation takes the
  value of the counter and adds one to it, in the one step of the event.
\<close>

theorem call_ids_count_invocations:
  assumes "run rt constructor es = Some s"
  shows "map call_id (calls s) = [0..<length (invocations es)]
         \<and> requestId s = length (invocations es)"
  using run_keeps_ids [OF assms] by (simp add: constructor_def)

theorem call_ids_count_invocations_witness:
  "run example_runtime constructor example_interleaving = Some example_final
   \<and> map call_id (calls example_final) = [0, 1, 2]
   \<and> requestId example_final = 3"
  using call_ids_count_invocations [OF run_example]
  by (simp add: run_example example_final_def)

text \<open>
  C5. The claim: the delay handed to the release timer is never negative, a negative
  result of the estimator being clamped to zero. The code hands the result of the
  estimator to \<^verbatim>\<open>setTimeout\<close> as it is: a caller invokes \<^verbatim>\<open>get\<close>, is given a slot,
  and the transport resolves with a response whose window reset lies 10 seconds before
  its date; the timer of the slot is armed with -9000.
\<close>

theorem release_timer_negative_counterexample:
  "run example_runtime constructor
     [Invoke GET [JStr ''/api/v1/groups''], Grant 0, Settle 0 (Resolved skewed_response)]
   = Some \<lparr>requestId = 1,
           pool = \<lparr>pool_size = 100, pool_held = 1\<rparr>,
           calls =
             [\<lparr>call_id = 0, call_fn = RpGet [JStr ''/api/v1/groups''],
               call_phase = Finished (Inr (JObj []))\<rparr>],
           transport = [(0, RpGet [JStr ''/api/v1/groups''])],
           timers = [(0, Fin (- 9000))],
           released = []\<rparr>
   \<and> \<not> js_le (Fin 0) (Fin (- 9000))"
  by (simp add: constructor_def get_def schedule_enter_def schedule_acquired_def
      schedule_settled_def ConcurrencyPool_def slot_free_def acquire_def
      REQUEST_CONCURRENCY_LIMIT_def try_block_skewed_response)

text \<open>
  C5, as amended. In whatever state the promise of an activation settles, when the
  estimator returns a delay \<open>d\<close> for the response or the error, the one timer armed for
  the slot of the activation has the delay \<open>d\<close>, as it is. For headers whose reset and
  date are the numbers \<open>R\<close> and \<open>D\<close>, \<open>d\<close> is 0 when the remaining count is greater
  than 110 and \<open>R * 1000 - D + 1000\<close> when it is not, of whatever sign.
\<close>

theorem release_timer_gets_estimate:
  assumes "step rt (Settle i out) s = Some s'"
    and "timeToNextRequest rt (settled_value out) = Inr d"
  shows "timers s' = timers s @ [(call_id (calls s ! i), d)]
    \<and> (headers_of (settled_value out) = Inr (JObj hs)
         \<and> toNumber rt (own_property hs ''x-rate-limit-reset'') = Fin R
         \<and> dateParse rt (own_property hs ''date'') = Fin D
       \<longrightarrow> d = (if js_gt (toNumber rt (own_property hs ''x-rate-limit-remaining'')) (Fin 110)
                then Fin 0 else Fin (R * 1000 - D + 1000)))"
proof -
  have "timers s' = timers s @ [(call_id (calls s ! i), d)]"
    using settle_effect(1) [OF assms(1)] try_block_when_estimated [OF assms(2)] by simp
  moreover have "headers_of (settled_value out) = Inr (JObj hs)
         \<and> toNumber rt (own_property hs ''x-rate-limit-reset'') = Fin R
         \<and> dateParse rt (own_property hs ''date'') = Fin D
       \<longrightarrow> d = (if js_gt (toNumber rt (own_property hs ''x-rate-limit-remaining'')) (Fin 110)
                then Fin 0 else Fin (R * 1000 - D + 1000))"
    using assms(2) by (auto simp: timeToNextRequest_def REQUEST_CONCURRENCY_LIMIT_def)
  ultimately show ?thesis by simp
qed

theorem release_timer_gets_estimate_witness:
  "step example_runtime (Settle 0 (Resolved scarce_response)) example_executing
     = Some example_returned
   \<and> timeToNextRequest example_runtime (settled_value (Resolved scarce_response))
       = Inr (Fin 3000)
   \<and> headers_of (settled_value (Resolved scarce_response)) = Inr (JObj scarce_headers)
   \<and> toNumber example_runtime (own_property scarce_headers ''x-rate-limit-reset'')
       = Fin 1704067202
   \<and> dateParse example_runtime (own_property scarce_headers ''date'') = Fin 1704067200000
   \<and> timers example_returned
       = timers example_executing @ [(call_id (calls example_executing ! 0), Fin 3000)]
   \<and> Fin 3000 = Fin (1704067202 * 1000 - 1704067200000 + 1000)"
proof -
  have h: "headers_of (settled_value (Resolved scarce_response)) = Inr (JObj scarce_headers)"
    by (simp add: headers_of_scarce_response)
  have R: "toNumber example_runtime (own_property scarce_headers ''x-rate-limit-reset'')
             = Fin 1704067202"
    by (simp add: scarce_headers_def own_property_def example_runtime_def)
  have D: "dateParse example_runtime (own_property scarce_headers ''date'')
             = Fin 1704067200000"
    by (simp add: scarce_headers_def own_property_def example_runtime_def)
  have est: "timeToNextRequest example_runtime (settled_value (Resolved scarce_response))
               = Inr (Fin 3000)"
    using try_block_delays [of example_runtime "Resolved scarce_response"]
    by (simp add: try_block_scarce_response split: sum.splits)
  show ?thesis
    using release_timer_gets_estimate [OF step_example_returned est,
        of scarce_headers 1704067202 1704067200000]
      step_example_returned est h R D
    by simp
qed

text \<open>
  C8. In whatever state the call of the transport of an activation succeeds with a full
  response, an object whose \<^verbatim>\<open>headers\<close> is an object, the activation finishes by
  returning the \<^verbatim>\<open>body\<close> of the response to its caller, not the response.
\<close>

theorem success_returns_body:
  assumes "step rt (Settle i (Resolved (JObj fs))) s = Some s'"
    and "own_property fs ''headers'' = JObj hs"
  shows "call_phase (calls s' ! i) = Finished (Inr (own_property fs ''body''))"
  using settle_effect(2,3) [OF assms(1)] try_block_returns_body [OF assms(2), of rt]
  by simp

theorem success_returns_body_witness:
  "step example_runtime (Settle 0 (Resolved (JObj scarce_fields))) example_executing
     = Some example_returned
   \<and> own_property scarce_fields ''headers'' = JObj scarce_headers
   \<and> own_property scarce_fields ''body'' = JObj [(''id'', JStr ''00u1'')]
   \<and> call_phase (calls example_returned ! 0) = Finished (Inr (JObj [(''id'', JStr ''00u1'')]))"
proof -
  have st: "step example_runtime (Settle 0 (Resolved (JObj scarce_fields))) example_executing
              = Some example_returned"
    using step_example_returned by (simp only: scarce_response_def)
  have h: "own_property scarce_fields ''headers'' = JObj scarce_headers"
    by (simp add: scarce_fields_def own_property_def)
  have b: "own_property scarce_fields ''body'' = JObj [(''id'', JStr ''00u1'')]"
    by (simp add: scarce_fields_def own_property_def)
  show ?thesis
    using success_returns_body [OF st h] st h b by simp
qed



end
